theory Spec2Isabelle
  imports Complex_Main "HOL-Library.Sublist"
begin

section \<open>Values shared by the modules\<close>

text \<open>
  Python strings are modelled as \<^typ>\<open>string\<close>; a non-ASCII character of a source
  literal is written as the bytes of its UTF-8 encoding.  A \<open>pathlib.Path\<close> is
  modelled by the string that \<open>str(path)\<close> yields.  Python's \<open>int\<close> is \<^typ>\<open>int\<close>.
  A \<open>float\<close> holding a time is modelled by an exact rational.
\<close>

definition digit_char :: "nat \<Rightarrow> char" where
  "digit_char d = ''0123456789'' ! d"

fun digits :: "nat \<Rightarrow> string" where
  "digits n = (if n < 10 then [digit_char n] else digits (n div 10) @ [digit_char (n mod 10)])"

declare digits.simps [simp del]

text \<open>\<open>str(i)\<close> for an integer.\<close>

definition str_int :: "int \<Rightarrow> string" where
  "str_int i = (if i < 0 then CHR ''-'' # digits (nat (- i)) else digits (nat i))"

text \<open>\<open>str(x)\<close> for a value that is an integer or \<open>None\<close>, as an f-string renders it.\<close>

definition str_opt_int :: "int option \<Rightarrow> string" where
  "str_opt_int x = (case x of None \<Rightarrow> ''None'' | Some i \<Rightarrow> str_int i)"

text \<open>\<open>" ".join(cmd)\<close>.\<close>

fun join_sp :: "string list \<Rightarrow> string" where
  "join_sp [] = []"
| "join_sp [x] = x"
| "join_sp (x # y # ys) = x @ '' '' @ join_sp (y # ys)"

text \<open>\<open>int(x)\<close> on a float: truncation towards zero.\<close>

definition py_int :: "rat \<Rightarrow> int" where
  "py_int x = (if 0 \<le> x then \<lfloor>x\<rfloor> else \<lceil>x\<rceil>)"

text \<open>\<open>x or 0\<close> where \<open>x\<close> is \<open>None\<close> or a number: \<open>None\<close> and zero are both falsy.\<close>

definition or_zero :: "'a::zero option \<Rightarrow> 'a" where
  "or_zero x = (case x of None \<Rightarrow> 0 | Some v \<Rightarrow> if v = 0 then 0 else v)"

subsection \<open>\<open>types.py\<close>: the configuration\<close>

record RecorderConfig =
  outdir :: string
  bitrate :: string
  max_seconds :: int
  dump_bin :: string
  ffmpeg_bin :: string
  overwrite :: bool
  verbose :: bool
  title :: "string option"

subsection \<open>\<open>log.py\<close>: elapsed-time formatting\<close>

text \<open>The format specification \<open>02d\<close>: at least two characters, padded with a zero.\<close>

definition fmt_02d :: "int \<Rightarrow> string" where
  "fmt_02d n = (let s = str_int n in if length s < 2 then CHR ''0'' # s else s)"

definition format_elapsed_time :: "int \<Rightarrow> string" where
  "format_elapsed_time seconds =
     (let hours = seconds div 3600;
          remainder = seconds mod 3600;
          minutes = remainder div 60;
          secs = remainder mod 60
      in fmt_02d hours @ '':'' @ fmt_02d minutes @ '':'' @ fmt_02d secs)"

section \<open>The environment of the recorder\<close>

text \<open>
  The recorder drives two child processes through \<open>subprocess.Popen\<close> handles, reads the
  clock, sleeps, looks at the file system and writes to a logger.  None of that is code of
  the repository, so it is a parameter of the model: a record of operations over an
  arbitrary world type \<open>'w\<close>.  An operation that can raise returns a sum, with the
  exception on the left.
\<close>

datatype exn =
    RecordingError string
  | TimeoutExpired string
  | OtherException string

text \<open>\<open>str(e)\<close>.\<close>

fun exn_str :: "exn \<Rightarrow> string" where
  "exn_str (RecordingError m) = m"
| "exn_str (TimeoutExpired m) = m"
| "exn_str (OtherException m) = m"

datatype signal_t = SIGINT | SIGTERM

text \<open>
  A \<open>Popen\<close> object: which process it stands for, and whether its \<open>stdout\<close> and
  \<open>stderr\<close> attributes are streams (rather than \<open>None\<close>).  Its \<open>returncode\<close> attribute
  is written by \<open>Popen\<close>'s own methods only, so it is read from the world.
\<close>

record handle =
  pid :: nat
  stdout_present :: bool
  stderr_present :: bool

record 'w os =
  os_popen :: "string list \<Rightarrow> handle option \<Rightarrow> 'w \<Rightarrow> (exn + handle) \<times> 'w"
  os_returncode :: "handle \<Rightarrow> 'w \<Rightarrow> int option"
  os_poll :: "handle \<Rightarrow> 'w \<Rightarrow> (exn + int option) \<times> 'w"
  os_wait :: "handle \<Rightarrow> nat option \<Rightarrow> 'w \<Rightarrow> (exn + int) \<times> 'w"
  os_terminate :: "handle \<Rightarrow> 'w \<Rightarrow> (exn + unit) \<times> 'w"
  os_kill :: "handle \<Rightarrow> 'w \<Rightarrow> (exn + unit) \<times> 'w"
  os_send_signal :: "handle \<Rightarrow> signal_t \<Rightarrow> 'w \<Rightarrow> (exn + unit) \<times> 'w"
  os_close_stdout :: "handle \<Rightarrow> 'w \<Rightarrow> (exn + unit) \<times> 'w"
  os_read_stderr :: "handle \<Rightarrow> 'w \<Rightarrow> (exn + string) \<times> 'w"
  os_time :: "'w \<Rightarrow> rat \<times> 'w"
  os_sleep :: "rat \<Rightarrow> 'w \<Rightarrow> 'w"
  os_exists :: "string \<Rightarrow> 'w \<Rightarrow> (exn + bool) \<times> 'w"
  os_stat_size :: "string \<Rightarrow> 'w \<Rightarrow> (exn + int) \<times> 'w"
  os_signal :: "signal_t \<Rightarrow> 'w \<Rightarrow> (exn + unit) \<times> 'w"
  os_thread_start :: "'w \<Rightarrow> (exn + unit) \<times> 'w"

text \<open>
  Every call the recorder makes is appended, with its outcome, to a trace.  The second
  argument of \<open>Popen_call\<close> is the handle whose \<open>stdout\<close> is passed as \<open>stdin\<close>
  (\<open>None\<close> when \<open>stdin\<close> is not given); both launches pass \<open>stdout=PIPE\<close>,
  \<open>stderr=PIPE\<close>, \<open>text=False\<close>.  The timeout of \<open>Wait_call\<close> is in seconds.
\<close>

datatype level = DEBUG | INFO | ERROR

datatype logarg = AStr string | AInt int | AFloat rat

datatype event =
    Popen_call "string list" "handle option" "exn + handle"
  | Poll_call handle "exn + int option"
  | Wait_call handle "nat option" "exn + int"
  | Terminate_call handle "exn + unit"
  | Kill_call handle "exn + unit"
  | Send_signal_call handle signal_t "exn + unit"
  | Close_stdout_call handle "exn + unit"
  | Read_stderr_call handle "exn + string"
  | Time_call rat
  | Sleep_call rat
  | Exists_call string "exn + bool"
  | Stat_call string "exn + int"
  | Signal_call signal_t "exn + unit"
  | Thread_start_call "exn + unit"
  | Log_call level string "logarg list"

text \<open>
  The state that the recorder's methods thread through their calls: the world and the
  trace so far.  \<open>call\<close> runs one operation of the environment and appends its event;
  \<open>p_popen\<close>, \<open>p_wait\<close> and the others are the calls that the source makes.
\<close>

type_synonym 'w io = "'w \<times> event list"

definition call :: "('w \<Rightarrow> 'a \<times> 'w) \<Rightarrow> ('a \<Rightarrow> event) \<Rightarrow> 'w io \<Rightarrow> 'a \<times> 'w io" where
  "call f ev s = (case f (fst s) of (res, w') \<Rightarrow> (res, (w', snd s @ [ev res])))"

definition p_popen :: "'w os \<Rightarrow> string list \<Rightarrow> handle option \<Rightarrow> 'w io \<Rightarrow> (exn + handle) \<times> 'w io" where
  "p_popen os argv stdin = call (os_popen os argv stdin) (Popen_call argv stdin)"

definition p_poll :: "'w os \<Rightarrow> handle \<Rightarrow> 'w io \<Rightarrow> (exn + int option) \<times> 'w io" where
  "p_poll os h = call (os_poll os h) (Poll_call h)"

definition p_wait :: "'w os \<Rightarrow> handle \<Rightarrow> nat option \<Rightarrow> 'w io \<Rightarrow> (exn + int) \<times> 'w io" where
  "p_wait os h t = call (os_wait os h t) (Wait_call h t)"

definition p_terminate :: "'w os \<Rightarrow> handle \<Rightarrow> 'w io \<Rightarrow> (exn + unit) \<times> 'w io" where
  "p_terminate os h = call (os_terminate os h) (Terminate_call h)"

definition p_kill :: "'w os \<Rightarrow> handle \<Rightarrow> 'w io \<Rightarrow> (exn + unit) \<times> 'w io" where
  "p_kill os h = call (os_kill os h) (Kill_call h)"

definition p_send_signal :: "'w os \<Rightarrow> handle \<Rightarrow> signal_t \<Rightarrow> 'w io \<Rightarrow> (exn + unit) \<times> 'w io" where
  "p_send_signal os h sg = call (os_send_signal os h sg) (Send_signal_call h sg)"

definition p_close_stdout :: "'w os \<Rightarrow> handle \<Rightarrow> 'w io \<Rightarrow> (exn + unit) \<times> 'w io" where
  "p_close_stdout os h = call (os_close_stdout os h) (Close_stdout_call h)"

definition p_read_stderr :: "'w os \<Rightarrow> handle \<Rightarrow> 'w io \<Rightarrow> (exn + string) \<times> 'w io" where
  "p_read_stderr os h = call (os_read_stderr os h) (Read_stderr_call h)"

definition p_time :: "'w os \<Rightarrow> 'w io \<Rightarrow> rat \<times> 'w io" where
  "p_time os = call (os_time os) Time_call"

definition p_sleep :: "'w os \<Rightarrow> rat \<Rightarrow> 'w io \<Rightarrow> 'w io" where
  "p_sleep os d s = (os_sleep os d (fst s), snd s @ [Sleep_call d])"

definition p_exists :: "'w os \<Rightarrow> string \<Rightarrow> 'w io \<Rightarrow> (exn + bool) \<times> 'w io" where
  "p_exists os p = call (os_exists os p) (Exists_call p)"

definition p_stat_size :: "'w os \<Rightarrow> string \<Rightarrow> 'w io \<Rightarrow> (exn + int) \<times> 'w io" where
  "p_stat_size os p = call (os_stat_size os p) (Stat_call p)"

definition p_signal :: "'w os \<Rightarrow> signal_t \<Rightarrow> 'w io \<Rightarrow> (exn + unit) \<times> 'w io" where
  "p_signal os sg = call (os_signal os sg) (Signal_call sg)"

definition p_thread_start :: "'w os \<Rightarrow> 'w io \<Rightarrow> (exn + unit) \<times> 'w io" where
  "p_thread_start os = call (os_thread_start os) Thread_start_call"

text \<open>
  What a run leaves behind: the trace of a method, which returns its outcome, the
  recorder and the environment, and the trace of a block, which returns its outcome and
  the environment.  \<open>popen_calls\<close> lists the launches of a trace: the argument list and
  the source of \<open>stdin\<close> of each.
\<close>

definition trace_of :: "'a \<times> 'b \<times> 'w io \<Rightarrow> event list" where
  "trace_of x = snd (snd (snd x))"

definition block_trace :: "'a \<times> 'w io \<Rightarrow> event list" where
  "block_trace x = snd (snd x)"

definition recorder_of :: "'a \<times> 'b \<times> 'w io \<Rightarrow> 'b" where
  "recorder_of x = fst (snd x)"

definition popen_calls :: "event list \<Rightarrow> (string list \<times> handle option) list" where
  "popen_calls tr =
     concat (map (\<lambda>e. case e of Popen_call argv stdin res \<Rightarrow> [(argv, stdin)] | _ \<Rightarrow> []) tr)"

text \<open>
  \<open>logger.debug\<close>, \<open>logger.info\<close> and \<open>logger.error\<close>: the format string and its
  arguments are handed to the logging library as they are.
\<close>

definition logger :: "level \<Rightarrow> string \<Rightarrow> logarg list \<Rightarrow> 'w io \<Rightarrow> 'w io" where
  "logger lvl fmt args s = (fst s, snd s @ [Log_call lvl fmt args])"

subsection \<open>\<open>log.py\<close>: logging helpers\<close>

definition log_command :: "string list \<Rightarrow> 'w io \<Rightarrow> 'w io" where
  "log_command cmd s = logger DEBUG ''Executing: %s'' [AStr (join_sp cmd)] s"

text \<open>
  \<open>log_process_result\<close> with its optional \<open>stderr\<close> argument left at the default
  \<open>None\<close>, as both call sites of the recorder do.
\<close>

definition log_process_result :: "string \<Rightarrow> int \<Rightarrow> 'w io \<Rightarrow> 'w io" where
  "log_process_result process_name return_code s =
     (if return_code = 0
      then logger DEBUG ''%s completed successfully'' [AStr process_name] s
      else logger ERROR ''%s failed with return code %d'' [AStr process_name, AInt return_code] s)"

section \<open>\<open>recorder.py\<close>: the Recorder\<close>

text \<open>
  The fields of a \<open>Recorder\<close>.  \<open>status_thread\<close> tells whether the thread object has
  been created.  Every method takes the recorder and the state of the environment and
  returns its outcome, the recorder as the method leaves it, and the new state of the
  environment.  A method is modelled as it runs on its own: a signal handler or another
  thread that runs in the middle of it is not part of its model.
\<close>

record recorder =
  config :: RecorderConfig
  output_path :: string
  dump_process :: "handle option"
  ffmpeg_process :: "handle option"
  start_time :: "rat option"
  stop_requested :: bool
  status_thread :: bool


text \<open>The property \<open>is_running\<close>.\<close>

definition is_running :: "'w os \<Rightarrow> recorder \<Rightarrow> 'w \<Rightarrow> bool" where
  "is_running os r w =
     (case ffmpeg_process r of
        None \<Rightarrow> False
      | Some f \<Rightarrow> os_returncode os f w = None)"

text \<open>The message of the error raised when a process is found dead right after its launch.\<close>

definition failed_to_start :: "string \<Rightarrow> int option \<Rightarrow> string \<Rightarrow> exn" where
  "failed_to_start name rc stderr =
     RecordingError (name @ '' failed to start (exit code '' @ str_opt_int rc @ ''): '' @ stderr)"

text \<open>
  The liveness check that ends both launch methods: \<open>poll()\<close>, and when the process has
  exited, its error stream is read and the launch fails.
\<close>

definition check_started :: "'w os \<Rightarrow> string \<Rightarrow> handle \<Rightarrow> 'w io \<Rightarrow> (exn + unit) \<times> 'w io" where
  "check_started os name h s0 =
     (case p_poll os h s0 of
        (Inl e, s1) \<Rightarrow> (Inl e, s1)
      | (Inr None, s1) \<Rightarrow> (Inr (), s1)
      | (Inr (Some c), s1) \<Rightarrow>
          (if stderr_present h
           then (case p_read_stderr os h s1 of
                   (Inl e, s2) \<Rightarrow> (Inl e, s2)
                 | (Inr txt, s2) \<Rightarrow>
                     (Inl (failed_to_start name (os_returncode os h (fst s2)) txt), s2))
           else (Inl (failed_to_start name (os_returncode os h (fst s1)) []), s1)))"

definition start_dump_process :: "'w os \<Rightarrow> recorder \<Rightarrow> 'w io \<Rightarrow> (exn + unit) \<times> recorder \<times> 'w io" where
  "start_dump_process os r s0 =
     (let dump_cmd = [dump_bin (config r)];
          s1 = log_command dump_cmd s0
      in case p_popen os dump_cmd None s1 of
           (Inl e, s2) \<Rightarrow> (Inl e, r, s2)
         | (Inr h, s2) \<Rightarrow>
             (let r1 = r\<lparr>dump_process := Some h\<rparr>;
                  s3 = p_sleep os (1 / 10) s2
              in case check_started os ''SystemAudioDump'' h s3 of
                   (res, s4) \<Rightarrow> (res, r1, s4)))"

text \<open>The list \<open>ffmpeg_cmd\<close> built in \<open>_start_ffmpeg_process\<close>.\<close>

definition ffmpeg_cmd :: "recorder \<Rightarrow> string list" where
  "ffmpeg_cmd r =
     [ffmpeg_bin (config r),
      ''-hide_banner'',
      ''-loglevel'', ''error'',
      ''-f'', ''s16le'',
      ''-ar'', ''24000'',
      ''-ac'', ''2'',
      ''-i'', ''pipe:0'',
      ''-c:a'', ''libmp3lame'',
      ''-b:a'', bitrate (config r),
      ''-vn'',
      ''-sn'',
      ''-t'', str_int (max_seconds (config r)),
      output_path r]"

definition start_ffmpeg_process :: "'w os \<Rightarrow> recorder \<Rightarrow> 'w io \<Rightarrow> (exn + unit) \<times> recorder \<times> 'w io" where
  "start_ffmpeg_process os r s0 =
     (case dump_process r of
        None \<Rightarrow> (Inl (RecordingError ''Dump process not available''), r, s0)
      | Some d \<Rightarrow>
          (if \<not> stdout_present d
           then (Inl (RecordingError ''Dump process not available''), r, s0)
           else
             (let s1 = log_command (ffmpeg_cmd r) s0
              in case p_popen os (ffmpeg_cmd r) (Some d) s1 of
                   (Inl e, s2) \<Rightarrow> (Inl e, r, s2)
                 | (Inr f, s2) \<Rightarrow>
                     (let r1 = r\<lparr>ffmpeg_process := Some f\<rparr>
                      in case p_close_stdout os d s2 of
                           (Inl e, s3) \<Rightarrow> (Inl e, r1, s3)
                         | (Inr _, s3) \<Rightarrow>
                             (let s4 = p_sleep os (1 / 10) s3
                              in case check_started os ''ffmpeg'' f s4 of
                                   (res, s5) \<Rightarrow> (res, r1, s5))))))"

text \<open>
  \<open>_cleanup_processes\<close>.  \<open>cleanup_kill\<close> is the handler of \<open>TimeoutExpired\<close>: what
  it raises leaves the method.  \<open>cleanup_one\<close> is the body of the loop for one process.
\<close>

definition cleanup_kill :: "'w os \<Rightarrow> handle \<Rightarrow> string \<Rightarrow> 'w io \<Rightarrow> (exn + unit) \<times> 'w io" where
  "cleanup_kill os h name s0 =
     (let s1 = logger DEBUG ''Killing %s after timeout'' [AStr name] s0
      in case p_kill os h s1 of
           (Inl e, s2) \<Rightarrow> (Inl e, s2)
         | (Inr _, s2) \<Rightarrow>
             (case p_wait os h None s2 of
                (Inl e, s3) \<Rightarrow> (Inl e, s3)
              | (Inr _, s3) \<Rightarrow> (Inr (), s3)))"

definition cleanup_except :: "'w os \<Rightarrow> handle \<Rightarrow> string \<Rightarrow> exn \<Rightarrow> 'w io \<Rightarrow> (exn + unit) \<times> 'w io" where
  "cleanup_except os h name e s =
     (case e of
        TimeoutExpired m \<Rightarrow> cleanup_kill os h name s
      | _ \<Rightarrow> (Inr (), logger DEBUG ''Error cleaning up %s: %s'' [AStr name, AStr (exn_str e)] s))"

definition cleanup_one :: "'w os \<Rightarrow> handle option \<Rightarrow> string \<Rightarrow> 'w io \<Rightarrow> (exn + unit) \<times> 'w io" where
  "cleanup_one os process name s0 =
     (case process of
        None \<Rightarrow> (Inr (), s0)
      | Some h \<Rightarrow>
          (if os_returncode os h (fst s0) = None
           then
             (let s1 = logger DEBUG ''Terminating %s'' [AStr name] s0
              in case p_terminate os h s1 of
                   (Inl e, s2) \<Rightarrow> cleanup_except os h name e s2
                 | (Inr _, s2) \<Rightarrow>
                     (case p_wait os h (Some 5) s2 of
                        (Inl e, s3) \<Rightarrow> cleanup_except os h name e s3
                      | (Inr _, s3) \<Rightarrow> (Inr (), s3)))
           else (Inr (), s0)))"

definition cleanup_processes :: "'w os \<Rightarrow> recorder \<Rightarrow> 'w io \<Rightarrow> (exn + unit) \<times> recorder \<times> 'w io" where
  "cleanup_processes os r s0 =
     (case cleanup_one os (ffmpeg_process r) ''ffmpeg'' s0 of
        (Inl e, s1) \<Rightarrow> (Inl e, r, s1)
      | (Inr _, s1) \<Rightarrow>
          (case cleanup_one os (dump_process r) ''SystemAudioDump'' s1 of
             (res, s2) \<Rightarrow> (res, r, s2)))"

text \<open>\<open>start\<close>: \<open>start_try\<close> is the body of its \<open>try\<close>.\<close>

definition start_try :: "'w os \<Rightarrow> recorder \<Rightarrow> 'w io \<Rightarrow> (exn + unit) \<times> recorder \<times> 'w io" where
  "start_try os r s0 =
     (case start_dump_process os r s0 of
        (Inl e, r1, s1) \<Rightarrow> (Inl e, r1, s1)
      | (Inr _, r1, s1) \<Rightarrow>
          (case start_ffmpeg_process os r1 s1 of
             (Inl e, r2, s2) \<Rightarrow> (Inl e, r2, s2)
           | (Inr _, r2, s2) \<Rightarrow>
               (case p_time os s2 of
                  (now, s3) \<Rightarrow>
                    (let r3 = r2\<lparr>start_time := Some now\<rparr>
                     in if \<not> verbose (config r3)
                        then (let r4 = r3\<lparr>status_thread := True\<rparr>
                              in case p_thread_start os s3 of
                                   (res, s4) \<Rightarrow> (res, r4, s4))
                        else (Inr (), r3, s3)))))"

definition start :: "'w os \<Rightarrow> recorder \<Rightarrow> 'w io \<Rightarrow> (exn + unit) \<times> recorder \<times> 'w io" where
  "start os r s0 =
     (let s1 = logger INFO ''Starting recording to: %s'' [AStr (output_path r)] s0;
          s2 = logger INFO ''Recording will auto-stop after %d seconds (%.1f hours)''
                 [AInt (max_seconds (config r)),
                  AFloat (of_int (max_seconds (config r)) / 3600)] s1;
          s3 = logger INFO ''Press Ctrl+C to stop recording early'' [] s2
      in case start_try os r s3 of
           (Inr _, r1, s4) \<Rightarrow> (Inr (), r1, s4)
         | (Inl e, r1, s4) \<Rightarrow>
             (case cleanup_processes os r1 s4 of
                (Inl e', r2, s5) \<Rightarrow> (Inl e', r2, s5)
              | (Inr _, r2, s5) \<Rightarrow>
                  (Inl (RecordingError (''Failed to start recording: '' @ exn_str e)), r2, s5)))"

text \<open>
  \<open>wait\<close>.  \<open>wait_cleanup_dump\<close> is the statement under \<open># Clean up dump process\<close>
  and \<open>wait_reap_dump\<close> the body of its \<open>if\<close>; \<open>wait_log\<close> is the statements under
  \<open># Log results\<close> and \<open># Determine stop reason\<close>; \<open>wait_check_output\<close> is the end
  of the \<open>try\<close>, from \<open># Check if output file was created\<close> on; \<open>wait_try\<close> is the
  whole body of the \<open>try\<close>.
\<close>

definition wait_reap_dump :: "'w os \<Rightarrow> handle \<Rightarrow> 'w io \<Rightarrow> (exn + unit) \<times> 'w io" where
  "wait_reap_dump os d s0 =
     (case p_terminate os d s0 of
        (Inl e, s1) \<Rightarrow> (Inl e, s1)
      | (Inr _, s1) \<Rightarrow>
          (case p_wait os d (Some 5) s1 of
             (Inl (TimeoutExpired m), s2) \<Rightarrow>
               (let s3 = logger DEBUG ''SystemAudioDump did not terminate gracefully, killing'' [] s2
                in case p_kill os d s3 of
                     (Inl e, s4) \<Rightarrow> (Inl e, s4)
                   | (Inr _, s4) \<Rightarrow>
                       (case p_wait os d None s4 of
                          (Inl e, s5) \<Rightarrow> (Inl e, s5)
                        | (Inr _, s5) \<Rightarrow> (Inr (), s5)))
           | (Inl e, s2) \<Rightarrow> (Inl e, s2)
           | (Inr _, s2) \<Rightarrow> (Inr (), s2)))"

definition wait_cleanup_dump :: "'w os \<Rightarrow> recorder \<Rightarrow> 'w io \<Rightarrow> (exn + unit) \<times> 'w io" where
  "wait_cleanup_dump os r s0 =
     (case dump_process r of
        None \<Rightarrow> (Inr (), s0)
      | Some d \<Rightarrow>
          (if os_returncode os d (fst s0) = None
           then wait_reap_dump os d s0
           else (Inr (), s0)))"

definition wait_log :: "'w os \<Rightarrow> recorder \<Rightarrow> int \<Rightarrow> 'w io \<Rightarrow> 'w io" where
  "wait_log os r ffmpeg_code s0 =
     (let s1 = (case dump_process r of
                  None \<Rightarrow> s0
                | Some d \<Rightarrow>
                    log_process_result ''SystemAudioDump''
                      (or_zero (os_returncode os d (fst s0))) s0);
          s2 = log_process_result ''ffmpeg'' ffmpeg_code s1
      in case p_time os s2 of
           (now, s3) \<Rightarrow>
             (let elapsed = py_int (now - or_zero (start_time r))
              in if stop_requested r
                 then logger INFO ''Recording stopped by user after %s''
                        [AStr (format_elapsed_time elapsed)] s3
                 else logger INFO ''Recording completed after %s''
                        [AStr (format_elapsed_time elapsed)] s3))"

definition wait_check_output :: "'w os \<Rightarrow> recorder \<Rightarrow> int \<Rightarrow> 'w io \<Rightarrow> (exn + int) \<times> 'w io" where
  "wait_check_output os r ffmpeg_code s0 =
     (case p_exists os (output_path r) s0 of
        (Inl e, s1) \<Rightarrow> (Inl e, s1)
      | (Inr ex, s1) \<Rightarrow>
          (if \<not> ex
           then (Inl (RecordingError ''Output file was not created''), s1)
           else (case p_stat_size os (output_path r) s1 of
                   (Inl e, s2) \<Rightarrow> (Inl e, s2)
                 | (Inr file_size, s2) \<Rightarrow>
                     (Inr ffmpeg_code,
                      logger INFO ''Saved %d bytes to: %s''
                        [AInt file_size, AStr (output_path r)] s2))))"

definition wait_try :: "'w os \<Rightarrow> recorder \<Rightarrow> handle \<Rightarrow> 'w io \<Rightarrow> (exn + int) \<times> 'w io" where
  "wait_try os r f s0 =
     (case p_wait os f None s0 of
        (Inl e, s1) \<Rightarrow> (Inl e, s1)
      | (Inr ffmpeg_code, s1) \<Rightarrow>
          (case wait_cleanup_dump os r s1 of
             (Inl e, s2) \<Rightarrow> (Inl e, s2)
           | (Inr _, s2) \<Rightarrow>
               wait_check_output os r ffmpeg_code (wait_log os r ffmpeg_code s2)))"

definition wait :: "'w os \<Rightarrow> recorder \<Rightarrow> 'w io \<Rightarrow> (exn + int) \<times> recorder \<times> 'w io" where
  "wait os r s0 =
     (case ffmpeg_process r of
        None \<Rightarrow> (Inl (RecordingError ''Recording not started''), r, s0)
      | Some f \<Rightarrow>
          (case wait_try os r f s0 of
             (Inr ffmpeg_code, s1) \<Rightarrow> (Inr ffmpeg_code, r, s1)
           | (Inl e, s1) \<Rightarrow>
               (case cleanup_processes os r s1 of
                  (Inl e', r1, s2) \<Rightarrow> (Inl e', r1, s2)
                | (Inr _, r1, s2) \<Rightarrow>
                    (Inl (RecordingError (''Recording failed: '' @ exn_str e)), r1, s2))))"



text \<open>
  \<open>_status_reporter\<close> runs in a thread of its own, while the main thread and the signal
  handler write the fields it reads.  \<open>status_tick\<close> is one pass through the body of its
  loop.  In \<open>status_loop\<close> the function \<open>others\<close> gives the recorder as the other
  threads have left it when \<open>sleep\<close> returns, and the loop is unrolled at most \<open>fuel\<close>
  times: the outcome \<open>None\<close> says that the loop is still running after that many passes.
  The format string holds the seven bytes that the source file has between
  \<open>recording\<close> and \<open>press\<close>.  Subtracting \<open>None\<close> from a float raises \<open>TypeError\<close>.
\<close>

definition status_fmt :: string where
  "status_fmt = ''%s recording'' @ [CHR 0xC3, CHR 0xA2, CHR 0xE2, CHR 0x82, CHR 0xAC, CHR 0xC2, CHR 0xA6]
                 @ '' press Ctrl+C to stop''"

definition type_error :: exn where
  "type_error = OtherException (''unsupported operand type(s) for -: '' @ [CHR 0x27] @ ''float''
                  @ [CHR 0x27] @ '' and '' @ [CHR 0x27] @ ''NoneType'' @ [CHR 0x27])"

definition status_due :: "int \<Rightarrow> bool" where
  "status_due elapsed = (elapsed > 0 \<and> elapsed mod 30 = 0)"

definition status_tick :: "'w os \<Rightarrow> recorder \<Rightarrow> 'w io \<Rightarrow> (exn + unit) \<times> 'w io" where
  "status_tick os r s0 =
     (case p_time os s0 of
        (now, s1) \<Rightarrow>
          (case start_time r of
             None \<Rightarrow> (Inl type_error, s1)
           | Some t0 \<Rightarrow>
               (let elapsed = py_int (now - t0);
                    s2 = (if status_due elapsed
                          then logger INFO status_fmt [AStr (format_elapsed_time elapsed)] s1
                          else s1)
                in (Inr (), p_sleep os 1 s2))))"

fun status_loop ::
  "'w os \<Rightarrow> (recorder \<Rightarrow> 'w \<Rightarrow> recorder) \<Rightarrow> nat \<Rightarrow> recorder \<Rightarrow> 'w io
     \<Rightarrow> (exn + unit) option \<times> recorder \<times> 'w io" where
  "status_loop os others 0 r s = (None, r, s)"
| "status_loop os others (Suc fuel) r s =
     (if is_running os r (fst s) \<and> \<not> stop_requested r
      then (case status_tick os r s of
              (Inl e, s1) \<Rightarrow> (Some (Inl e), r, s1)
            | (Inr _, s1) \<Rightarrow> status_loop os others fuel (others r (fst s1)) s1)
      else (Some (Inr ()), r, s))"

definition status_reporter ::
  "'w os \<Rightarrow> (recorder \<Rightarrow> 'w \<Rightarrow> recorder) \<Rightarrow> nat \<Rightarrow> recorder \<Rightarrow> 'w io
     \<Rightarrow> (exn + unit) option \<times> recorder \<times> 'w io" where
  "status_reporter os others fuel r s =
     (if start_time r = None \<or> start_time r = Some 0
      then (Some (Inr ()), r, s)
      else status_loop os others fuel r s)"

section \<open>\<open>cli.py\<close>: the dry run\<close>

text \<open>The list \<open>ffmpeg_cmd\<close> built in \<open>_print_dry_run\<close>.\<close>

definition dry_run_ffmpeg_cmd :: "RecorderConfig \<Rightarrow> string \<Rightarrow> string list" where
  "dry_run_ffmpeg_cmd cfg path =
     [ffmpeg_bin cfg,
      ''-hide_banner'',
      ''-loglevel'', ''error'',
      ''-f'', ''s16le'',
      ''-ar'', ''24000'',
      ''-ac'', ''2'',
      ''-i'', ''pipe:0'',
      ''-c:a'', ''libmp3lame'',
      ''-b:a'', bitrate cfg,
      ''-vn'',
      ''-sn'',
      ''-t'', str_int (max_seconds cfg),
      path]"

text \<open>
  The lines that \<open>_print_dry_run\<close> echoes, in order.  \<open>fmt_1f\<close> stands for the float
  format \<open>.1f\<close> of Python, which is taken as a parameter.
\<close>

definition print_dry_run :: "(rat \<Rightarrow> string) \<Rightarrow> RecorderConfig \<Rightarrow> string \<Rightarrow> string list" where
  "print_dry_run fmt_1f cfg path =
     [''Dry run mode - commands that would be executed:'',
      '''',
      ''Output file: '' @ path,
      ''Max duration: '' @ str_int (max_seconds cfg) @ '' seconds (''
         @ fmt_1f (of_int (max_seconds cfg) / 3600) @ '' hours)'',
      '''',
      ''SystemAudioDump command:'',
      ''  '' @ dump_bin cfg,
      '''',
      ''ffmpeg command:'',
      ''  '' @ join_sp (dry_run_ffmpeg_cmd cfg path),
      '''',
      ''Pipeline:'',
      ''  '' @ dump_bin cfg @ '' | '' @ join_sp (dry_run_ffmpeg_cmd cfg path)]"

section \<open>A scripted environment\<close>

text \<open>
  An environment that can be run: it answers each call with the next reply of a script
  and remembers the exit codes that \<open>wait\<close> and \<open>poll\<close> have reported, which is what a
  handle's \<open>returncode\<close> shows.  A call that finds no fitting reply raises.  A \<open>sleep\<close>
  takes a reply only when it is \<open>R_reaped\<close>: the process has then been reaped by another
  thread in the meantime.
\<close>

datatype reply =
    R_handle handle
  | R_code int
  | R_none
  | R_ok
  | R_raise exn
  | R_text string
  | R_flag bool
  | R_clock rat
  | R_reaped nat int

record sim_world =
  codes :: "(nat \<times> int) list"
  script :: "reply list"

definition next_reply :: "sim_world \<Rightarrow> reply \<times> sim_world" where
  "next_reply w = (case script w of [] \<Rightarrow> (R_ok, w) | x # xs \<Rightarrow> (x, w\<lparr>script := xs\<rparr>))"

definition unscripted :: exn where
  "unscripted = OtherException ''unscripted''"

definition sim_unit :: "sim_world \<Rightarrow> (exn + unit) \<times> sim_world" where
  "sim_unit w =
     (case next_reply w of
        (R_raise e, w') \<Rightarrow> (Inl e, w')
      | (_, w') \<Rightarrow> (Inr (), w'))"

definition sim_popen :: "string list \<Rightarrow> handle option \<Rightarrow> sim_world \<Rightarrow> (exn + handle) \<times> sim_world" where
  "sim_popen argv stdin w =
     (case next_reply w of
        (R_handle h, w') \<Rightarrow> (Inr h, w')
      | (R_raise e, w') \<Rightarrow> (Inl e, w')
      | (_, w') \<Rightarrow> (Inl unscripted, w'))"

definition sim_returncode :: "handle \<Rightarrow> sim_world \<Rightarrow> int option" where
  "sim_returncode h w = map_of (codes w) (pid h)"

definition sim_poll :: "handle \<Rightarrow> sim_world \<Rightarrow> (exn + int option) \<times> sim_world" where
  "sim_poll h w =
     (case next_reply w of
        (R_code c, w') \<Rightarrow> (Inr (Some c), w'\<lparr>codes := (pid h, c) # codes w'\<rparr>)
      | (R_none, w') \<Rightarrow> (Inr None, w')
      | (R_raise e, w') \<Rightarrow> (Inl e, w')
      | (_, w') \<Rightarrow> (Inl unscripted, w'))"

definition sim_wait :: "handle \<Rightarrow> nat option \<Rightarrow> sim_world \<Rightarrow> (exn + int) \<times> sim_world" where
  "sim_wait h t w =
     (case next_reply w of
        (R_code c, w') \<Rightarrow> (Inr c, w'\<lparr>codes := (pid h, c) # codes w'\<rparr>)
      | (R_raise e, w') \<Rightarrow> (Inl e, w')
      | (_, w') \<Rightarrow> (Inl unscripted, w'))"

definition sim_read_stderr :: "handle \<Rightarrow> sim_world \<Rightarrow> (exn + string) \<times> sim_world" where
  "sim_read_stderr h w =
     (case next_reply w of
        (R_text t, w') \<Rightarrow> (Inr t, w')
      | (R_raise e, w') \<Rightarrow> (Inl e, w')
      | (_, w') \<Rightarrow> (Inl unscripted, w'))"

definition sim_time :: "sim_world \<Rightarrow> rat \<times> sim_world" where
  "sim_time w =
     (case next_reply w of
        (R_clock t, w') \<Rightarrow> (t, w')
      | (_, w') \<Rightarrow> (0, w'))"

definition sim_sleep :: "rat \<Rightarrow> sim_world \<Rightarrow> sim_world" where
  "sim_sleep d w =
     (case script w of
        R_reaped p c # xs \<Rightarrow> w\<lparr>codes := (p, c) # codes w, script := xs\<rparr>
      | _ \<Rightarrow> w)"

definition sim_exists :: "string \<Rightarrow> sim_world \<Rightarrow> (exn + bool) \<times> sim_world" where
  "sim_exists p w =
     (case next_reply w of
        (R_flag b, w') \<Rightarrow> (Inr b, w')
      | (R_raise e, w') \<Rightarrow> (Inl e, w')
      | (_, w') \<Rightarrow> (Inl unscripted, w'))"

definition sim_stat_size :: "string \<Rightarrow> sim_world \<Rightarrow> (exn + int) \<times> sim_world" where
  "sim_stat_size p w =
     (case next_reply w of
        (R_code n, w') \<Rightarrow> (Inr n, w')
      | (R_raise e, w') \<Rightarrow> (Inl e, w')
      | (_, w') \<Rightarrow> (Inl unscripted, w'))"

definition sim_os :: "sim_world os" where
  "sim_os =
     \<lparr>os_popen = sim_popen,
      os_returncode = sim_returncode,
      os_poll = sim_poll,
      os_wait = sim_wait,
      os_terminate = (\<lambda>h. sim_unit),
      os_kill = (\<lambda>h. sim_unit),
      os_send_signal = (\<lambda>h sg. sim_unit),
      os_close_stdout = (\<lambda>h. sim_unit),
      os_read_stderr = sim_read_stderr,
      os_time = sim_time,
      os_sleep = sim_sleep,
      os_exists = sim_exists,
      os_stat_size = sim_stat_size,
      os_signal = (\<lambda>sg. sim_unit),
      os_thread_start = sim_unit\<rparr>"

text \<open>A world that runs the given script, with no exit code known yet.\<close>

definition scripted :: "reply list \<Rightarrow> sim_world io" where
  "scripted rs = (\<lparr>codes = [], script = rs\<rparr>, [])"

text \<open>Example values: a configuration, the two handles, and recorders built from them.\<close>

definition cfg0 :: RecorderConfig where
  "cfg0 = \<lparr>outdir = ''rec'', bitrate = ''160k'', max_seconds = 9000,
           dump_bin = ''/bin/SystemAudioDump'', ffmpeg_bin = ''ffmpeg'',
           overwrite = False, verbose = False, title = None\<rparr>"

definition dump0 :: handle where
  "dump0 = \<lparr>pid = 1, stdout_present = True, stderr_present = True\<rparr>"

definition ffmpeg0 :: handle where
  "ffmpeg0 = \<lparr>pid = 2, stdout_present = True, stderr_present = True\<rparr>"

definition fresh0 :: recorder where
  "fresh0 = \<lparr>config = cfg0, output_path = ''rec/out.mp3'', dump_process = None,
             ffmpeg_process = None, start_time = None, stop_requested = False,
             status_thread = False\<rparr>"

definition started0 :: recorder where
  "started0 = fresh0\<lparr>dump_process := Some dump0, ffmpeg_process := Some ffmpeg0,
                     start_time := Some 100, status_thread := True\<rparr>"

text \<open>
  The events by which \<open>wait\<close> logs the outcome of the capture process, in the world
  \<open>w\<close>: none when there is no capture handle.
\<close>

definition dump_log :: "'w os \<Rightarrow> recorder \<Rightarrow> 'w \<Rightarrow> event list" where
  "dump_log os r w =
     (case dump_process r of
        None \<Rightarrow> []
      | Some d \<Rightarrow> snd (log_process_result ''SystemAudioDump'' (or_zero (os_returncode os d w)) (w, [])))"


text \<open>
  Projections of a trace: the clock values read, and the messages logged (level, format
  string, arguments).
\<close>

definition clock_samples :: "event list \<Rightarrow> rat list" where
  "clock_samples tr = concat (map (\<lambda>e. case e of Time_call t \<Rightarrow> [t] | _ \<Rightarrow> []) tr)"

definition log_calls :: "event list \<Rightarrow> (level \<times> string \<times> logarg list) list" where
  "log_calls tr =
     concat (map (\<lambda>e. case e of Log_call lvl fmt args \<Rightarrow> [(lvl, fmt, args)] | _ \<Rightarrow> []) tr)"

text \<open>
  The status reporter as the spec words it.  One pass of its loop that reads the clock
  value \<open>now\<close>, in a session started at \<open>t0\<close>: the clock is read, one status line is
  emitted if the elapsed whole seconds are a positive multiple of 30, and the loop sleeps
  for a second.  \<open>zero_padded2\<close> is a number written with at least two digits.
\<close>

definition status_line :: "int \<Rightarrow> level \<times> string \<times> logarg list" where
  "status_line elapsed = (INFO, status_fmt, [AStr (format_elapsed_time elapsed)])"

definition pass_events :: "rat \<Rightarrow> rat \<Rightarrow> event list" where
  "pass_events t0 now =
     (let elapsed = py_int (now - t0)
      in Time_call now
         # (if 0 < elapsed \<and> 30 dvd elapsed
            then [Log_call INFO status_fmt [AStr (format_elapsed_time elapsed)]]
            else [])
         @ [Sleep_call 1])"

definition zero_padded2 :: "nat \<Rightarrow> string" where
  "zero_padded2 n = (if n < 10 then [CHR ''0'', digit_char n] else digits n)"


text \<open>
  The condition of the loop of \<open>_status_reporter\<close> on a recorder and a world, and the
  recorder and the world that the next test of the condition finds after a pass: the
  world after the clock has been read and the second slept, the recorder as the other
  threads have left it by then.
\<close>

definition loop_condition :: "'w os \<Rightarrow> recorder \<times> 'w \<Rightarrow> bool" where
  "loop_condition os x = (is_running os (fst x) (snd x) \<and> \<not> stop_requested (fst x))"

definition after_pass :: "'w os \<Rightarrow> (recorder \<Rightarrow> 'w \<Rightarrow> recorder) \<Rightarrow> recorder \<times> 'w \<Rightarrow> recorder \<times> 'w" where
  "after_pass os others x =
     (let w' = os_sleep os 1 (snd (os_time os (snd x)))
      in (others (fst x) w', w'))"

section \<open>Unfolding rules\<close>

lemmas p_defs = call_def p_popen_def p_poll_def p_wait_def p_terminate_def p_kill_def
  p_send_signal_def p_close_stdout_def p_read_stderr_def p_time_def p_sleep_def p_exists_def
  p_stat_size_def p_signal_def p_thread_start_def logger_def log_command_def log_process_result_def

lemmas sim_defs = sim_os_def sim_unit_def sim_popen_def sim_returncode_def sim_poll_def sim_wait_def
  sim_read_stderr_def sim_time_def sim_sleep_def sim_exists_def sim_stat_size_def next_reply_def
  scripted_def unscripted_def

lemmas example_defs = cfg0_def dump0_def ffmpeg0_def fresh0_def started0_def

lemmas sel_defs = trace_of_def block_trace_def recorder_of_def


lemmas run_defs = p_defs sim_defs example_defs sel_defs or_zero_def py_int_def

section \<open>\<open>stop_gracefully\<close> without a running encoder\<close>



section \<open>The launch of the encoder\<close>

lemma check_started_launches_nothing:
  "popen_calls (block_trace (check_started os name h s)) = popen_calls (snd s)"
  by (simp add: check_started_def p_defs popen_calls_def sel_defs case_prod_beta
      split: sum.splits option.splits)

lemma start_ffmpeg_popen_calls:
  assumes "dump_process r = Some d" and "stdout_present d"
  shows "popen_calls (trace_of (start_ffmpeg_process os r (w, []))) = [(ffmpeg_cmd r, Some d)]"
proof -
  have "popen_calls (snd (snd (check_started os name h s))) = popen_calls (snd s)"
    for name h and s :: "'a io"
    using check_started_launches_nothing [of os name h s] by (simp add: sel_defs)
  then show ?thesis
    using assms
    by (simp add: start_ffmpeg_process_def p_defs sel_defs Let_def case_prod_beta
        split: sum.splits) (simp add: popen_calls_def)
qed

text \<open>
  C5.  When the capture process is there with its output stream,
  \<open>_start_ffmpeg_process\<close> launches exactly one process, with the capture process's
  output as its input and with exactly this argument list: the encoder binary,
  \<open>-hide_banner\<close>, \<open>-loglevel error\<close>, \<open>-f s16le\<close>, \<open>-ar 24000\<close>, \<open>-ac 2\<close>,
  \<open>-i pipe:0\<close>, \<open>-c:a libmp3lame\<close>, \<open>-b:a\<close> with the configured bitrate, \<open>-vn\<close>,
  \<open>-sn\<close>, \<open>-t\<close> with the configured maximum of seconds, and the output path last.
\<close>

theorem ffmpeg_launch_arguments:
  assumes "dump_process r = Some d" and "stdout_present d"
  shows "popen_calls (trace_of (start_ffmpeg_process os r (w, []))) =
           [([ffmpeg_bin (config r), ''-hide_banner'', ''-loglevel'', ''error'',
              ''-f'', ''s16le'', ''-ar'', ''24000'', ''-ac'', ''2'', ''-i'', ''pipe:0'',
              ''-c:a'', ''libmp3lame'', ''-b:a'', bitrate (config r), ''-vn'', ''-sn'',
              ''-t'', str_int (max_seconds (config r)), output_path r],
             Some d)]"
  using start_ffmpeg_popen_calls [OF assms, of os w] by (simp add: ffmpeg_cmd_def)

theorem ffmpeg_launch_arguments_witness:
  "popen_calls (trace_of (start_ffmpeg_process sim_os (fresh0\<lparr>dump_process := Some dump0\<rparr>)
      (\<lparr>codes = [], script = [R_handle ffmpeg0, R_ok, R_none]\<rparr>, []))) =
     [([''ffmpeg'', ''-hide_banner'', ''-loglevel'', ''error'',
        ''-f'', ''s16le'', ''-ar'', ''24000'', ''-ac'', ''2'', ''-i'', ''pipe:0'',
        ''-c:a'', ''libmp3lame'', ''-b:a'', ''160k'', ''-vn'', ''-sn'',
        ''-t'', ''9000'', ''rec/out.mp3''],
       Some dump0)]"
  using ffmpeg_launch_arguments [of "fresh0\<lparr>dump_process := Some dump0\<rparr>" dump0 sim_os
      "\<lparr>codes = [], script = [R_handle ffmpeg0, R_ok, R_none]\<rparr>"]
  by (simp add: example_defs str_int_def digits.simps digit_char_def)

text \<open>
  C9.  For every configuration and output path, the one launch that
  \<open>_start_ffmpeg_process\<close> makes on a recorder holding them has, element for element,
  the argument list that \<open>_print_dry_run\<close> builds from them, and it is that list, joined
  by spaces, that the dry run prints under \<open>ffmpeg command:\<close>.
\<close>

theorem dry_run_matches_launch:
  assumes "dump_process r = Some d" and "stdout_present d"
    and "config r = cfg" and "output_path r = path"
  shows "popen_calls (trace_of (start_ffmpeg_process os r (w, []))) =
           [(dry_run_ffmpeg_cmd cfg path, Some d)]
         \<and> print_dry_run fmt_1f cfg path ! 9 = ''  '' @ join_sp (dry_run_ffmpeg_cmd cfg path)"
  using start_ffmpeg_popen_calls [OF assms(1,2), of os w] assms(3,4)
  by (simp add: ffmpeg_cmd_def dry_run_ffmpeg_cmd_def print_dry_run_def)

theorem dry_run_matches_launch_witness:
  "popen_calls (trace_of (start_ffmpeg_process sim_os (fresh0\<lparr>dump_process := Some dump0\<rparr>)
      (\<lparr>codes = [], script = [R_handle ffmpeg0, R_ok, R_none]\<rparr>, []))) =
     [(dry_run_ffmpeg_cmd cfg0 ''rec/out.mp3'', Some dump0)]
   \<and> print_dry_run (\<lambda>x. ''2.5'') cfg0 ''rec/out.mp3'' ! 9 =
       ''  ffmpeg -hide_banner -loglevel error -f s16le -ar 24000 -ac 2 -i pipe:0 -c:a libmp3lame -b:a 160k -vn -sn -t 9000 rec/out.mp3''"
  using dry_run_matches_launch [of "fresh0\<lparr>dump_process := Some dump0\<rparr>" dump0 cfg0
      "''rec/out.mp3''" sim_os "\<lparr>codes = [], script = [R_handle ffmpeg0, R_ok, R_none]\<rparr>"
      "\<lambda>x. ''2.5''"]
  by (simp add: example_defs dry_run_ffmpeg_cmd_def str_int_def digits.simps digit_char_def)

section \<open>The trace only grows\<close>

lemma call_result: "fst (call f ev s) = fst (f (fst s))"
  by (simp add: call_def case_prod_beta)

lemma call_state: "snd (call f ev s) = (snd (f (fst s)), snd s @ [ev (fst (f (fst s)))])"
  by (simp add: call_def case_prod_beta)

lemma cleanup_kill_extends: "prefix (snd s) (block_trace (cleanup_kill os h name s))"
  by (simp add: cleanup_kill_def p_defs sel_defs case_prod_beta Let_def split: sum.splits)

lemma cleanup_except_extends: "prefix (snd s) (block_trace (cleanup_except os h name e s))"
  using cleanup_kill_extends [of s os h name]
  by (simp add: cleanup_except_def p_defs sel_defs split: exn.splits)

lemma cleanup_one_extends: "prefix (snd s) (block_trace (cleanup_one os p name s))"
proof (cases p)
  case None
  then show ?thesis by (simp add: cleanup_one_def sel_defs)
next
  case (Some h)
  have a: "prefix (snd s @ ev) (block_trace (cleanup_except os h name e (w, snd s @ ev)))"
    for e w ev
    using cleanup_except_extends [of "(w, snd s @ ev)" os h name e] by simp
  have b: "prefix (snd s) (block_trace (cleanup_except os h name e (w, snd s @ ev)))"
    for e w ev
    using a [of ev e w] by (meson prefix_order.order_trans prefixI)
  show ?thesis
    using Some b
    by (simp add: cleanup_one_def p_defs case_prod_beta Let_def split: sum.splits)
      (simp add: sel_defs)
qed

lemma cleanup_processes_extends: "prefix (snd s) (trace_of (cleanup_processes os r s))"
proof -
  have 1: "prefix (snd s) (snd (snd (cleanup_one os (ffmpeg_process r) ''ffmpeg'' s)))"
    using cleanup_one_extends [of s os "ffmpeg_process r" "''ffmpeg''"] by (simp add: sel_defs)
  have 2: "prefix (snd (snd (cleanup_one os (ffmpeg_process r) ''ffmpeg'' s)))
             (snd (snd (cleanup_one os (dump_process r) ''SystemAudioDump''
                (snd (cleanup_one os (ffmpeg_process r) ''ffmpeg'' s)))))"
    using cleanup_one_extends [of "snd (cleanup_one os (ffmpeg_process r) ''ffmpeg'' s)" os
        "dump_process r" "''SystemAudioDump''"] by (simp add: sel_defs)
  show ?thesis
    using 1 2
    by (auto simp add: cleanup_processes_def sel_defs case_prod_beta split: sum.splits)
qed

lemma wait_extends_wait_try:
  assumes "ffmpeg_process r = Some f"
  shows "prefix (block_trace (wait_try os r f s)) (trace_of (wait os r s))"
  using assms cleanup_processes_extends [of "snd (wait_try os r f s)" os r]
  by (simp add: wait_def sel_defs case_prod_beta split: sum.splits)

lemma wait_check_output_extends:
  "prefix (snd s) (block_trace (wait_check_output os r c s))"
  by (simp add: wait_check_output_def p_defs sel_defs case_prod_beta split: sum.splits)


lemma wait_log_extends:
  "prefix (snd s @ dump_log os r (fst s)) (snd (wait_log os r c s))"
  by (simp add: wait_log_def dump_log_def p_defs case_prod_beta Let_def split: option.splits)

lemma wait_try_extends_cleanup:
  assumes "fst (os_wait os f None (fst s)) = Inr code"
  shows "prefix (block_trace (wait_cleanup_dump os r (snd (p_wait os f None s))) @
                 (if fst (wait_cleanup_dump os r (snd (p_wait os f None s))) = Inr ()
                  then dump_log os r (fst (snd (wait_cleanup_dump os r (snd (p_wait os f None s)))))
                  else []))
           (block_trace (wait_try os r f s))"
proof -
  define s2 where "s2 = snd (wait_cleanup_dump os r (snd (p_wait os f None s)))"
  have enc: "fst (p_wait os f None s) = Inr code"
    using assms by (simp add: p_wait_def call_result)
  have "prefix (snd s2 @ dump_log os r (fst s2))
          (block_trace (wait_check_output os r code (wait_log os r code s2)))"
    using wait_log_extends [of s2 os r code]
      wait_check_output_extends [of "wait_log os r code s2" os r code]
    by (rule prefix_order.order_trans)
  then show ?thesis
    using enc
    by (simp add: wait_try_def case_prod_beta s2_def sel_defs split: sum.splits)
qed

section \<open>The capture process in \<open>wait\<close>\<close>

text \<open>
  C1.  Take a recorder with both handles on which the encoder's \<open>wait()\<close> returns.
  When the capture handle shows no exit code then and \<open>terminate()\<close> succeeds, the
  calls of \<open>wait\<close> begin: the encoder's wait, \<open>terminate()\<close> on the capture process,
  \<open>wait(timeout=5)\<close> on it; and when that wait times out, a debug message, \<open>kill()\<close>
  and (when \<open>kill()\<close> succeeds) a second wait, without a timeout.  When the five-second
  wait returns instead, the next event is the logging of the capture's outcome: there is
  no kill.  When the capture handle already shows an exit code, the logging follows the
  encoder's wait at once: there is no terminate.
\<close>

theorem wait_reaps_capture_process:
  assumes "ffmpeg_process r = Some f" and "dump_process r = Some d"
    and "os_wait os f None w = (Inr code, w1)"
  shows "(os_returncode os d w1 = None \<and> os_terminate os d w1 = (Inr (), w2) \<and>
          os_wait os d (Some 5) w2 = (Inl (TimeoutExpired m), w3) \<and>
          os_kill os d w3 = (Inr (), w4) \<longrightarrow>
            prefix
              [Wait_call f None (Inr code),
               Terminate_call d (Inr ()),
               Wait_call d (Some 5) (Inl (TimeoutExpired m)),
               Log_call DEBUG ''SystemAudioDump did not terminate gracefully, killing'' [],
               Kill_call d (Inr ()),
               Wait_call d None (fst (os_wait os d None w4))]
              (trace_of (wait os r (w, []))))
       \<and> (os_returncode os d w1 = None \<and> os_terminate os d w1 = (Inr (), w2) \<and>
          os_wait os d (Some 5) w2 = (Inr c, w3) \<longrightarrow>
            prefix
              ([Wait_call f None (Inr code),
                Terminate_call d (Inr ()),
                Wait_call d (Some 5) (Inr c)]
               @ snd (log_process_result ''SystemAudioDump'' (or_zero (os_returncode os d w3)) (w3, [])))
              (trace_of (wait os r (w, []))))
       \<and> (os_returncode os d w1 = Some c \<longrightarrow>
            prefix
              (Wait_call f None (Inr code)
               # snd (log_process_result ''SystemAudioDump'' (or_zero (Some c)) (w1, [])))
              (trace_of (wait os r (w, []))))"
proof -
  have enc: "fst (os_wait os f None (fst (w, []))) = Inr code"
    using assms(3) by simp
  have pw: "snd (p_wait os f None (w, [])) = (w1, [Wait_call f None (Inr code)])"
    using assms(3) by (simp add: p_wait_def call_state)
  note step = prefix_order.order_trans [OF
      wait_try_extends_cleanup [OF enc, of r, unfolded pw]
      wait_extends_wait_try [OF assms(1), of os "(w, [])"]]
  show ?thesis
  proof (intro conjI impI; (elim conjE)?)
    assume a: "os_returncode os d w1 = None" "os_terminate os d w1 = (Inr (), w2)"
      "os_wait os d (Some 5) w2 = (Inl (TimeoutExpired m), w3)" "os_kill os d w3 = (Inr (), w4)"
    have "block_trace (wait_cleanup_dump os r (w1, [Wait_call f None (Inr code)])) =
            [Wait_call f None (Inr code), Terminate_call d (Inr ()),
             Wait_call d (Some 5) (Inl (TimeoutExpired m)),
             Log_call DEBUG ''SystemAudioDump did not terminate gracefully, killing'' [],
             Kill_call d (Inr ()), Wait_call d None (fst (os_wait os d None w4))]"
      using a assms(2)
      by (simp add: wait_cleanup_dump_def wait_reap_dump_def p_defs sel_defs case_prod_beta
          split: sum.splits)
    with step show "prefix
              [Wait_call f None (Inr code),
               Terminate_call d (Inr ()),
               Wait_call d (Some 5) (Inl (TimeoutExpired m)),
               Log_call DEBUG ''SystemAudioDump did not terminate gracefully, killing'' [],
               Kill_call d (Inr ()),
               Wait_call d None (fst (os_wait os d None w4))]
              (trace_of (wait os r (w, [])))"
      by (metis append_prefixD)
  next
    assume a: "os_returncode os d w1 = None" "os_terminate os d w1 = (Inr (), w2)"
      "os_wait os d (Some 5) w2 = (Inr c, w3)"
    have "wait_cleanup_dump os r (w1, [Wait_call f None (Inr code)]) =
            (Inr (), (w3, [Wait_call f None (Inr code), Terminate_call d (Inr ()),
             Wait_call d (Some 5) (Inr c)]))"
      using a assms(2)
      by (simp add: wait_cleanup_dump_def wait_reap_dump_def p_defs case_prod_beta)
    with step show "prefix
              ([Wait_call f None (Inr code),
                Terminate_call d (Inr ()),
                Wait_call d (Some 5) (Inr c)]
               @ snd (log_process_result ''SystemAudioDump'' (or_zero (os_returncode os d w3)) (w3, [])))
              (trace_of (wait os r (w, [])))"
      using assms(2) by (simp add: sel_defs dump_log_def)
  next
    assume a: "os_returncode os d w1 = Some c"
    have "wait_cleanup_dump os r (w1, [Wait_call f None (Inr code)]) =
            (Inr (), (w1, [Wait_call f None (Inr code)]))"
      using a assms(2) by (simp add: wait_cleanup_dump_def)
    with step show "prefix
              (Wait_call f None (Inr code)
               # snd (log_process_result ''SystemAudioDump'' (or_zero (Some c)) (w1, [])))
              (trace_of (wait os r (w, [])))"
      using assms(2) a by (simp add: sel_defs dump_log_def)
  qed
qed


theorem wait_reaps_capture_process_witness:
  "prefix
     [Wait_call ffmpeg0 None (Inr 0),
      Terminate_call dump0 (Inr ()),
      Wait_call dump0 (Some 5) (Inl (TimeoutExpired ''timed out'')),
      Log_call DEBUG ''SystemAudioDump did not terminate gracefully, killing'' [],
      Kill_call dump0 (Inr ()),
      Wait_call dump0 None (Inr (- 9))]
     (trace_of (wait sim_os started0
        (\<lparr>codes = [], script = [R_code 0, R_ok, R_raise (TimeoutExpired ''timed out''), R_ok,
           R_code (- 9), R_clock 160, R_flag True, R_code 1234]\<rparr>, [])))
   \<and> prefix
     [Wait_call ffmpeg0 None (Inr 0),
      Terminate_call dump0 (Inr ()),
      Wait_call dump0 (Some 5) (Inr (- 15)),
      Log_call ERROR ''%s failed with return code %d'' [AStr ''SystemAudioDump'', AInt (- 15)]]
     (trace_of (wait sim_os started0
        (\<lparr>codes = [], script = [R_code 0, R_ok, R_code (- 15), R_clock 160, R_flag True,
           R_code 1234]\<rparr>, [])))
   \<and> prefix
     [Wait_call ffmpeg0 None (Inr 0),
      Log_call ERROR ''%s failed with return code %d'' [AStr ''SystemAudioDump'', AInt 1]]
     (trace_of (wait sim_os started0
        (\<lparr>codes = [(1, 1)], script = [R_code 0, R_clock 160, R_flag True, R_code 1234]\<rparr>, [])))"
  using
    wait_reaps_capture_process [where r = started0 and f = ffmpeg0 and d = dump0 and os = sim_os
      and code = 0 and m = "''timed out''"
      and w = "\<lparr>codes = [], script = [R_code 0, R_ok, R_raise (TimeoutExpired ''timed out''), R_ok,
           R_code (- 9), R_clock 160, R_flag True, R_code 1234]\<rparr>"
      and ?w1.0 = "\<lparr>codes = [(2, 0)], script = [R_ok, R_raise (TimeoutExpired ''timed out''), R_ok,
           R_code (- 9), R_clock 160, R_flag True, R_code 1234]\<rparr>"
      and ?w2.0 = "\<lparr>codes = [(2, 0)], script = [R_raise (TimeoutExpired ''timed out''), R_ok,
           R_code (- 9), R_clock 160, R_flag True, R_code 1234]\<rparr>"
      and ?w3.0 = "\<lparr>codes = [(2, 0)], script = [R_ok, R_code (- 9), R_clock 160, R_flag True,
           R_code 1234]\<rparr>"
      and ?w4.0 = "\<lparr>codes = [(2, 0)], script = [R_code (- 9), R_clock 160, R_flag True,
           R_code 1234]\<rparr>"]
    wait_reaps_capture_process [where r = started0 and f = ffmpeg0 and d = dump0 and os = sim_os
      and code = 0 and c = "- 15"
      and w = "\<lparr>codes = [], script = [R_code 0, R_ok, R_code (- 15), R_clock 160, R_flag True,
           R_code 1234]\<rparr>"
      and ?w1.0 = "\<lparr>codes = [(2, 0)], script = [R_ok, R_code (- 15), R_clock 160, R_flag True,
           R_code 1234]\<rparr>"
      and ?w2.0 = "\<lparr>codes = [(2, 0)], script = [R_code (- 15), R_clock 160, R_flag True,
           R_code 1234]\<rparr>"
      and ?w3.0 = "\<lparr>codes = [(1, - 15), (2, 0)], script = [R_clock 160, R_flag True,
           R_code 1234]\<rparr>"]
    wait_reaps_capture_process [where r = started0 and f = ffmpeg0 and d = dump0 and os = sim_os
      and code = 0 and c = 1
      and w = "\<lparr>codes = [(1, 1)], script = [R_code 0, R_clock 160, R_flag True, R_code 1234]\<rparr>"
      and ?w1.0 = "\<lparr>codes = [(2, 0), (1, 1)], script = [R_clock 160, R_flag True,
           R_code 1234]\<rparr>"]
  by (simp add: run_defs)

section \<open>When the launcher closes the capture stream\<close>

lemma check_started_trace:
  "prefix (snd s @ [Poll_call h (fst (os_poll os h (fst s)))])
     (block_trace (check_started os name h s))"
  by (simp add: check_started_def p_defs sel_defs case_prod_beta split: sum.splits option.splits)

text \<open>
  C6, as the spec states it, says that the capture process's output stream is closed only
  once the encoder has been confirmed alive, after the liveness poll.  Here the encoder
  dies at once: the stream is closed all the same, and the close comes before the sleep
  and the poll.
\<close>

theorem stdout_closed_before_liveness_poll_counterexample:
  "start_ffmpeg_process sim_os (fresh0\<lparr>dump_process := Some dump0\<rparr>)
     (scripted [R_handle ffmpeg0, R_ok, R_code 1, R_text ''boom'']) =
   (Inl (RecordingError ''ffmpeg failed to start (exit code 1): boom''),
    fresh0\<lparr>dump_process := Some dump0, ffmpeg_process := Some ffmpeg0\<rparr>,
    \<lparr>codes = [(2, 1)], script = []\<rparr>,
    [Log_call DEBUG ''Executing: %s''
       [AStr ''ffmpeg -hide_banner -loglevel error -f s16le -ar 24000 -ac 2 -i pipe:0 -c:a libmp3lame -b:a 160k -vn -sn -t 9000 rec/out.mp3''],
     Popen_call
       [''ffmpeg'', ''-hide_banner'', ''-loglevel'', ''error'', ''-f'', ''s16le'', ''-ar'',
        ''24000'', ''-ac'', ''2'', ''-i'', ''pipe:0'', ''-c:a'', ''libmp3lame'', ''-b:a'',
        ''160k'', ''-vn'', ''-sn'', ''-t'', ''9000'', ''rec/out.mp3'']
       (Some dump0) (Inr ffmpeg0),
     Close_stdout_call dump0 (Inr ()),
     Sleep_call (1 / 10),
     Poll_call ffmpeg0 (Inr (Some 1)),
     Read_stderr_call ffmpeg0 (Inr ''boom'')])"
  by (simp add: start_ffmpeg_process_def check_started_def failed_to_start_def ffmpeg_cmd_def
      str_opt_int_def run_defs str_int_def digits.simps digit_char_def)

text \<open>
  C6, amended.  When the launch of the encoder and the close succeed, the trace of
  \<open>_start_ffmpeg_process\<close> begins: the logged command, the launch, the close of the
  capture process's output stream, the sleep of a tenth of a second, the poll of the
  encoder.  The stream is closed right after the launch and before the liveness poll,
  whatever that poll then finds.
\<close>

theorem stdout_closed_right_after_launch:
  assumes "dump_process r = Some d" and "stdout_present d"
    and "os_popen os (ffmpeg_cmd r) (Some d) w = (Inr f, w1)"
    and "os_close_stdout os d w1 = (Inr (), w2)"
  shows "prefix
           [Log_call DEBUG ''Executing: %s'' [AStr (join_sp (ffmpeg_cmd r))],
            Popen_call (ffmpeg_cmd r) (Some d) (Inr f),
            Close_stdout_call d (Inr ()),
            Sleep_call (1 / 10),
            Poll_call f (fst (os_poll os f (os_sleep os (1 / 10) w2)))]
           (trace_of (start_ffmpeg_process os r (w, [])))"
  using assms
    check_started_trace [of "(os_sleep os (1 / 10) w2,
        [Log_call DEBUG ''Executing: %s'' [AStr (join_sp (ffmpeg_cmd r))],
         Popen_call (ffmpeg_cmd r) (Some d) (Inr f),
         Close_stdout_call d (Inr ()),
         Sleep_call (1 / 10)])" f os "''ffmpeg''"]
  by (simp add: start_ffmpeg_process_def p_defs sel_defs case_prod_beta Let_def)

theorem stdout_closed_right_after_launch_witness:
  "prefix
     [Log_call DEBUG ''Executing: %s'' [AStr (join_sp (ffmpeg_cmd (fresh0\<lparr>dump_process := Some dump0\<rparr>)))],
      Popen_call (ffmpeg_cmd (fresh0\<lparr>dump_process := Some dump0\<rparr>)) (Some dump0) (Inr ffmpeg0),
      Close_stdout_call dump0 (Inr ()),
      Sleep_call (1 / 10),
      Poll_call ffmpeg0 (Inr None)]
     (trace_of (start_ffmpeg_process sim_os (fresh0\<lparr>dump_process := Some dump0\<rparr>)
        (\<lparr>codes = [], script = [R_handle ffmpeg0, R_ok, R_none]\<rparr>, [])))"
  using stdout_closed_right_after_launch [where r = "fresh0\<lparr>dump_process := Some dump0\<rparr>"
      and d = dump0 and os = sim_os and f = ffmpeg0
      and w = "\<lparr>codes = [], script = [R_handle ffmpeg0, R_ok, R_none]\<rparr>"
      and ?w1.0 = "\<lparr>codes = [], script = [R_ok, R_none]\<rparr>"
      and ?w2.0 = "\<lparr>codes = [], script = [R_none]\<rparr>"]
  by (simp add: run_defs)

section \<open>The outcome of \<open>wait\<close>\<close>




section \<open>Failures while \<open>wait\<close> cleans up\<close>




section \<open>Stopping twice\<close>











section \<open>The status reporter\<close>

lemma status_tick_pass:
  assumes "start_time r = Some t0"
  shows "status_tick os r (w, tr) =
           (Inr (), (os_sleep os 1 (snd (os_time os w)), tr @ pass_events t0 (fst (os_time os w))))"
  using assms
  by (simp add: status_tick_def pass_events_def status_due_def p_defs case_prod_beta Let_def
      dvd_eq_mod_eq_0)

lemma status_loop_run:
  assumes others: "\<And>r w. start_time (others r w) = start_time r"
  shows "start_time r = Some t0 \<Longrightarrow>
         \<exists>ts. trace_of (status_loop os others n r (w, tr)) = tr @ concat (map (pass_events t0) ts)
            \<and> length ts \<le> n
            \<and> (\<forall>k<length ts.
                  loop_condition os ((after_pass os others ^^ k) (r, w)) \<and>
                  ts ! k = fst (os_time os (snd ((after_pass os others ^^ k) (r, w)))))
            \<and> (length ts < n \<longrightarrow>
                  \<not> loop_condition os ((after_pass os others ^^ length ts) (r, w)) \<and>
                  fst (status_loop os others n r (w, tr)) = Some (Inr ()))
            \<and> (length ts = n \<longrightarrow> fst (status_loop os others n r (w, tr)) = None)"
proof (induction n arbitrary: r w tr)
  case 0
  show ?case
    by (rule exI [of _ "[]"]) (simp add: sel_defs)
next
  case (Suc n)
  show ?case
  proof (cases "loop_condition os (r, w)")
    case False
    then have stop: "status_loop os others (Suc n) r (w, tr) = (Some (Inr ()), r, (w, tr))"
      by (auto simp add: loop_condition_def)
    show ?thesis
      by (rule exI [of _ "[]"]) (use False stop in \<open>simp add: sel_defs\<close>)
  next
    case True
    define now where "now = fst (os_time os w)"
    define w' where "w' = os_sleep os 1 (snd (os_time os w))"
    define r' where "r' = others r w'"
    have next_state: "after_pass os others (r, w) = (r', w')"
      by (simp add: after_pass_def Let_def r'_def w'_def)
    have step: "status_loop os others (Suc n) r (w, tr) =
        status_loop os others n r' (w', tr @ pass_events t0 now)"
      using True status_tick_pass [OF Suc.prems, of os w tr]
      by (simp add: loop_condition_def now_def w'_def r'_def)
    have "start_time r' = Some t0"
      using others Suc.prems by (simp add: r'_def)
    from Suc.IH [OF this, of w' "tr @ pass_events t0 now"]
    obtain ts where
      tr: "trace_of (status_loop os others n r' (w', tr @ pass_events t0 now)) =
             (tr @ pass_events t0 now) @ concat (map (pass_events t0) ts)"
      and len: "length ts \<le> n"
      and passes: "\<forall>k<length ts.
                  loop_condition os ((after_pass os others ^^ k) (r', w')) \<and>
                  ts ! k = fst (os_time os (snd ((after_pass os others ^^ k) (r', w'))))"
      and stopped: "length ts < n \<longrightarrow>
                  \<not> loop_condition os ((after_pass os others ^^ length ts) (r', w')) \<and>
                  fst (status_loop os others n r' (w', tr @ pass_events t0 now)) = Some (Inr ())"
      and running: "length ts = n \<longrightarrow>
                  fst (status_loop os others n r' (w', tr @ pass_events t0 now)) = None"
      by blast
    have shift: "(after_pass os others ^^ Suc k) (r, w) = (after_pass os others ^^ k) (r', w')" for k
      by (simp add: funpow_swap1 next_state)
    have all: "\<forall>k<length (now # ts).
                  loop_condition os ((after_pass os others ^^ k) (r, w)) \<and>
                  (now # ts) ! k = fst (os_time os (snd ((after_pass os others ^^ k) (r, w))))"
    proof (intro allI impI)
      fix k assume k: "k < length (now # ts)"
      show "loop_condition os ((after_pass os others ^^ k) (r, w)) \<and>
            (now # ts) ! k = fst (os_time os (snd ((after_pass os others ^^ k) (r, w))))"
      proof (cases k)
        case 0
        with True show ?thesis by (simp add: now_def)
      next
        case (Suc j)
        with k have "j < length ts" by simp
        with passes have "loop_condition os ((after_pass os others ^^ j) (r', w')) \<and>
            ts ! j = fst (os_time os (snd ((after_pass os others ^^ j) (r', w'))))"
          by blast
        then show ?thesis
          unfolding Suc shift by simp
      qed
    qed
    show ?thesis
    proof (rule exI [of _ "now # ts"], intro conjI)
      show "trace_of (status_loop os others (Suc n) r (w, tr)) =
              tr @ concat (map (pass_events t0) (now # ts))"
        using tr step by simp
      show "length (now # ts) \<le> Suc n"
        using len by simp
      show "\<forall>k<length (now # ts).
                  loop_condition os ((after_pass os others ^^ k) (r, w)) \<and>
                  (now # ts) ! k = fst (os_time os (snd ((after_pass os others ^^ k) (r, w))))"
        by (rule all)
      show "length (now # ts) < Suc n \<longrightarrow>
                  \<not> loop_condition os ((after_pass os others ^^ length (now # ts)) (r, w)) \<and>
                  fst (status_loop os others (Suc n) r (w, tr)) = Some (Inr ())"
        using stopped step shift [of "length ts"] by simp
      show "length (now # ts) = Suc n \<longrightarrow>
                  fst (status_loop os others (Suc n) r (w, tr)) = None"
        using running step by simp
    qed
  qed
qed


lemma clock_samples_passes: "clock_samples (concat (map (pass_events t0) ts)) = ts"
  by (induction ts) (simp_all add: clock_samples_def pass_events_def Let_def)

lemma log_calls_passes:
  "log_calls (concat (map (pass_events t0) ts)) =
     map status_line (filter (\<lambda>e. 0 < e \<and> 30 dvd e) (map (\<lambda>now. py_int (now - t0)) ts))"
  by (induction ts) (simp_all add: log_calls_def pass_events_def status_line_def Let_def)

lemma status_loop_recorder:
  "recorder_of (status_loop os (\<lambda>r w. r) n r s) = r"
  by (induction n arbitrary: s)
    (simp_all add: sel_defs case_prod_beta split: sum.splits)

lemma digits_nonempty: "digits n \<noteq> []"
  by (subst digits.simps) simp

lemma digits_two: "10 \<le> n \<Longrightarrow> 2 \<le> length (digits n)"
  using digits_nonempty [of "n div 10"]
  by (subst digits.simps) (simp add: Suc_le_eq)

lemma digits_small: "n < 10 \<Longrightarrow> digits n = [digit_char n]"
  by (subst digits.simps) simp

lemma fmt_02d_nat: "fmt_02d (int n) = zero_padded2 n"
proof (cases "n < 10")
  case True
  then show ?thesis
    by (simp add: fmt_02d_def zero_padded2_def str_int_def digits_small)
next
  case False
  then have "2 \<le> length (digits n)" by (simp add: digits_two)
  with False show ?thesis
    by (simp add: fmt_02d_def zero_padded2_def str_int_def)
qed

lemma zero_padded2_two_digits:
  "n < 100 \<Longrightarrow> zero_padded2 n = [digit_char (n div 10), digit_char (n mod 10)]"
proof (cases "n < 10")
  case True
  then show ?thesis by (simp add: zero_padded2_def digit_char_def)
next
  case False
  assume "n < 100"
  with False have "n div 10 < 10" by simp
  with False show ?thesis
    by (simp add: zero_padded2_def) (subst digits.simps, simp add: digits_small)
qed

lemma format_elapsed_time_hms:
  assumes "0 \<le> e"
  shows "format_elapsed_time e =
           zero_padded2 (nat (e div 3600)) @ '':'' @ zero_padded2 (nat (e mod 3600 div 60))
             @ '':'' @ zero_padded2 (nat (e mod 60))"
proof -
  have 1: "e div 3600 = int (nat (e div 3600))" using assms by simp
  have 2: "e mod 3600 div 60 = int (nat (e mod 3600 div 60))" by simp
  have 3: "e mod 3600 mod 60 = int (nat (e mod 60))"
    by (simp add: mod_mod_cancel)
  show ?thesis
    unfolding format_elapsed_time_def Let_def
    by (subst 1, subst 2, subst 3) (simp only: fmt_02d_nat)
qed


text \<open>
  C8, as the spec states it, says that the reporter emits exactly one status line for every
  positive multiple of 30 seconds of elapsed time.  Here the session started at 100, and
  the two passes of the loop read the clock at 129 and at 131: nothing is logged for the
  thirtieth second.
\<close>

theorem status_line_skipped_counterexample:
  "status_reporter sim_os (\<lambda>r w. r) (Suc (Suc (Suc 0))) started0
     (scripted [R_clock 129, R_clock 131, R_reaped 2 0]) =
   (Some (Inr ()), started0, \<lparr>codes = [(2, 0)], script = []\<rparr>,
    [Time_call 129, Sleep_call 1, Time_call 131, Sleep_call 1])
   \<and> start_time started0 = Some 100"
  by (simp add: status_reporter_def status_tick_def status_due_def is_running_def run_defs)

text \<open>
  C8, amended.  Take a recorder with a start time, in an environment where the other
  threads leave the start time alone.  The loop of \<open>_status_reporter\<close> runs only while
  \<open>is_running\<close> holds and no stop has been requested, and the condition is tested
  before every pass: the reporter returns at once when it fails on entry, every pass that
  is made starts in a state where it holds, and the loop ends at the first state where
  it fails (with less fuel than that, the loop is still running).  Each pass reads the
  clock once, emits one status line if the elapsed whole seconds of that reading are a
  positive multiple of 30, and sleeps for a second.  So the lines logged are those of the
  readings that are positive multiples of 30, one for each reading: a multiple that no
  reading falls on gets no line, and there is one line for each multiple when the
  readings are consecutive seconds.  The elapsed time in a line is
  \<open>hours:minutes:seconds\<close>, each zero-padded to two digits.  Left alone by the other
  threads, the reporter returns the recorder as it found it.
\<close>

theorem status_reporter_run:
  assumes "\<forall>r w. start_time (others r w) = start_time r"
    and "start_time r = Some t0"
  shows "(\<not> is_running os r w \<or> stop_requested r \<or> t0 = 0 \<longrightarrow>
            status_reporter os others (Suc n) r (w, tr) = (Some (Inr ()), r, (w, tr)))
       \<and> (t0 \<noteq> 0 \<longrightarrow>
            (\<exists>ts. trace_of (status_reporter os others n r (w, [])) =
                    concat (map (pass_events t0) ts)
               \<and> length ts \<le> n
               \<and> (\<forall>k<length ts.
                     loop_condition os ((after_pass os others ^^ k) (r, w)) \<and>
                     ts ! k = fst (os_time os (snd ((after_pass os others ^^ k) (r, w)))))
               \<and> (length ts < n \<longrightarrow>
                     \<not> loop_condition os ((after_pass os others ^^ length ts) (r, w)) \<and>
                     fst (status_reporter os others n r (w, [])) = Some (Inr ()))
               \<and> (length ts = n \<longrightarrow> fst (status_reporter os others n r (w, [])) = None)))
       \<and> log_calls (trace_of (status_reporter os others n r (w, []))) =
           map status_line
             (filter (\<lambda>e. 0 < e \<and> 30 dvd e)
                (map (\<lambda>now. py_int (now - t0))
                   (clock_samples (trace_of (status_reporter os others n r (w, []))))))
       \<and> (map (\<lambda>now. py_int (now - t0))
              (clock_samples (trace_of (status_reporter os others n r (w, [])))) =
            map int [a..<a + m] \<longrightarrow>
            log_calls (trace_of (status_reporter os others n r (w, []))) =
              map status_line (filter (\<lambda>e. 0 < e \<and> 30 dvd e) (map int [a..<a + m])))
       \<and> (0 \<le> e \<longrightarrow>
            format_elapsed_time e =
              zero_padded2 (nat (e div 3600)) @ '':'' @ zero_padded2 (nat (e mod 3600 div 60))
                @ '':'' @ zero_padded2 (nat (e mod 60))
            \<and> e div 3600 * 3600 + e mod 3600 div 60 * 60 + e mod 60 = e)
       \<and> (k < 100 \<longrightarrow> zero_padded2 k = [digit_char (k div 10), digit_char (k mod 10)])
       \<and> recorder_of (status_reporter os (\<lambda>r w. r) n r (w, tr)) = r"
proof -
  have run: "t0 \<noteq> 0 \<longrightarrow>
            (\<exists>ts. trace_of (status_reporter os others n r (w, [])) =
                    concat (map (pass_events t0) ts)
               \<and> length ts \<le> n
               \<and> (\<forall>k<length ts.
                     loop_condition os ((after_pass os others ^^ k) (r, w)) \<and>
                     ts ! k = fst (os_time os (snd ((after_pass os others ^^ k) (r, w)))))
               \<and> (length ts < n \<longrightarrow>
                     \<not> loop_condition os ((after_pass os others ^^ length ts) (r, w)) \<and>
                     fst (status_reporter os others n r (w, [])) = Some (Inr ()))
               \<and> (length ts = n \<longrightarrow> fst (status_reporter os others n r (w, [])) = None))"
  proof
    assume "t0 \<noteq> 0"
    with assms(2) have "status_reporter os others n r (w, []) = status_loop os others n r (w, [])"
      by (simp add: status_reporter_def)
    then show "\<exists>ts. trace_of (status_reporter os others n r (w, [])) =
                    concat (map (pass_events t0) ts)
               \<and> length ts \<le> n
               \<and> (\<forall>k<length ts.
                     loop_condition os ((after_pass os others ^^ k) (r, w)) \<and>
                     ts ! k = fst (os_time os (snd ((after_pass os others ^^ k) (r, w)))))
               \<and> (length ts < n \<longrightarrow>
                     \<not> loop_condition os ((after_pass os others ^^ length ts) (r, w)) \<and>
                     fst (status_reporter os others n r (w, [])) = Some (Inr ()))
               \<and> (length ts = n \<longrightarrow> fst (status_reporter os others n r (w, [])) = None)"
      using status_loop_run [of others r t0 os n w "[]"] assms by simp
  qed
  have passes: "\<exists>ts. trace_of (status_reporter os others n r (w, [])) =
                 concat (map (pass_events t0) ts)"
  proof (cases "t0 = 0")
    case True
    with assms(2) have "trace_of (status_reporter os others n r (w, [])) =
        concat (map (pass_events t0) [])"
      by (simp add: status_reporter_def sel_defs)
    then show ?thesis by blast
  next
    case False
    with run show ?thesis by blast
  qed
  then obtain ts where ts: "trace_of (status_reporter os others n r (w, [])) =
      concat (map (pass_events t0) ts)"
    by blast
  have lines: "log_calls (trace_of (status_reporter os others n r (w, []))) =
           map status_line
             (filter (\<lambda>e. 0 < e \<and> 30 dvd e)
                (map (\<lambda>now. py_int (now - t0))
                   (clock_samples (trace_of (status_reporter os others n r (w, []))))))"
    unfolding ts by (simp only: clock_samples_passes log_calls_passes)
  have paced: "map (\<lambda>now. py_int (now - t0))
              (clock_samples (trace_of (status_reporter os others n r (w, [])))) =
            map int [a..<a + m] \<longrightarrow>
            log_calls (trace_of (status_reporter os others n r (w, []))) =
              map status_line (filter (\<lambda>e. 0 < e \<and> 30 dvd e) (map int [a..<a + m]))"
  proof
    assume "map (\<lambda>now. py_int (now - t0))
              (clock_samples (trace_of (status_reporter os others n r (w, [])))) =
            map int [a..<a + m]"
    with lines show "log_calls (trace_of (status_reporter os others n r (w, []))) =
              map status_line (filter (\<lambda>e. 0 < e \<and> 30 dvd e) (map int [a..<a + m]))"
      by (simp only:)
  qed
  have guard: "\<not> is_running os r w \<or> stop_requested r \<or> t0 = 0 \<longrightarrow>
            status_reporter os others (Suc n) r (w, tr) = (Some (Inr ()), r, (w, tr))"
    using assms(2) by (auto simp add: status_reporter_def)
  have arith: "e div 3600 * 3600 + e mod 3600 div 60 * 60 + e mod 60 = e"
  proof -
    have c: "e mod 3600 mod 60 = e mod 60"
      by (simp add: mod_mod_cancel)
    have b: "e mod 3600 div 60 * 60 + e mod 3600 mod 60 = e mod 3600"
      by (rule div_mult_mod_eq)
    have a: "e div 3600 * 3600 + e mod 3600 = e"
      by (rule div_mult_mod_eq)
    have "e div 3600 * 3600 + e mod 3600 div 60 * 60 + e mod 60 =
            e div 3600 * 3600 + (e mod 3600 div 60 * 60 + e mod 3600 mod 60)"
      by (simp only: c add.assoc)
    also have "\<dots> = e div 3600 * 3600 + e mod 3600"
      by (simp only: b)
    also have "\<dots> = e"
      by (rule a)
    finally show ?thesis .
  qed
  have fmt: "0 \<le> e \<longrightarrow>
            format_elapsed_time e =
              zero_padded2 (nat (e div 3600)) @ '':'' @ zero_padded2 (nat (e mod 3600 div 60))
                @ '':'' @ zero_padded2 (nat (e mod 60))
            \<and> e div 3600 * 3600 + e mod 3600 div 60 * 60 + e mod 60 = e"
    using format_elapsed_time_hms [of e] arith by blast
  have pad: "k < 100 \<longrightarrow> zero_padded2 k = [digit_char (k div 10), digit_char (k mod 10)]"
    using zero_padded2_two_digits [of k] by blast
  have same: "recorder_of (status_reporter os (\<lambda>r w. r) n r (w, tr)) = r"
    using status_loop_recorder [of os n r "(w, tr)"]
    by (simp add: status_reporter_def sel_defs)
  show ?thesis
    by (intro conjI) (rule guard run lines paced fmt pad same)+
qed

theorem status_reporter_run_witness:
  "status_reporter sim_os (\<lambda>r w. r) (Suc (Suc (Suc 0))) started0
     (scripted [R_clock 129, R_clock 130, R_reaped 2 0]) =
   (Some (Inr ()), started0, \<lparr>codes = [(2, 0)], script = []\<rparr>,
    [Time_call 129, Sleep_call 1,
     Time_call 130, Log_call INFO status_fmt [AStr ''00:00:30''], Sleep_call 1])
   \<and> log_calls (trace_of (status_reporter sim_os (\<lambda>r w. r) (Suc (Suc (Suc 0))) started0
       (scripted [R_clock 129, R_clock 130, R_reaped 2 0]))) = [status_line 30]
   \<and> loop_condition sim_os
        (started0, \<lparr>codes = [], script = [R_clock 129, R_clock 130, R_reaped 2 0]\<rparr>)
   \<and> loop_condition sim_os
        (after_pass sim_os (\<lambda>r w. r)
          (started0, \<lparr>codes = [], script = [R_clock 129, R_clock 130, R_reaped 2 0]\<rparr>))
   \<and> after_pass sim_os (\<lambda>r w. r) (after_pass sim_os (\<lambda>r w. r)
        (started0, \<lparr>codes = [], script = [R_clock 129, R_clock 130, R_reaped 2 0]\<rparr>)) =
       (started0, \<lparr>codes = [(2, 0)], script = []\<rparr>)
   \<and> status_reporter sim_os (\<lambda>r w. r) (Suc 0) (started0\<lparr>stop_requested := True\<rparr>) (scripted []) =
       (Some (Inr ()), started0\<lparr>stop_requested := True\<rparr>, scripted [])
   \<and> format_elapsed_time 3725 = ''01:02:05''"
proof -
  note a = status_reporter_run [where others = "\<lambda>r w. r" and r = started0 and ?t0.0 = 100
      and os = sim_os and n = "Suc (Suc (Suc 0))" and e = 3725 and k = 5 and tr = "[]"
      and a = 29 and m = 2
      and w = "\<lparr>codes = [], script = [R_clock 129, R_clock 130, R_reaped 2 0]\<rparr>"]
  note b = status_reporter_run [where others = "\<lambda>r w. r"
      and r = "started0\<lparr>stop_requested := True\<rparr>" and ?t0.0 = 100
      and os = sim_os and n = 0 and w = "\<lparr>codes = [], script = []\<rparr>" and tr = "[]"
      and e = 0 and k = 0 and a = 0 and m = 0]
  have premise: "\<forall>r w. start_time ((\<lambda>r w. r) r w) = start_time r"
    by simp
  have s0: "start_time started0 = Some 100"
    by (simp add: example_defs)
  have s1: "start_time (started0\<lparr>stop_requested := True\<rparr>) = Some 100"
    by (simp add: example_defs)
  from a [OF premise s0] have
    fmt: "format_elapsed_time 3725 =
            zero_padded2 (nat (3725 div 3600)) @ '':'' @ zero_padded2 (nat (3725 mod 3600 div 60))
              @ '':'' @ zero_padded2 (nat (3725 mod 60))"
    by simp
  from b [OF premise s1] have
    stop: "status_reporter sim_os (\<lambda>r w. r) (Suc 0) (started0\<lparr>stop_requested := True\<rparr>)
             (\<lparr>codes = [], script = []\<rparr>, []) =
           (Some (Inr ()), started0\<lparr>stop_requested := True\<rparr>, (\<lparr>codes = [], script = []\<rparr>, []))"
    by (simp add: example_defs)
  have run: "status_reporter sim_os (\<lambda>r w. r) (Suc (Suc (Suc 0))) started0
     (scripted [R_clock 129, R_clock 130, R_reaped 2 0]) =
   (Some (Inr ()), started0, \<lparr>codes = [(2, 0)], script = []\<rparr>,
    [Time_call 129, Sleep_call 1,
     Time_call 130, Log_call INFO status_fmt [AStr ''00:00:30''], Sleep_call 1])"
    by (simp add: status_reporter_def status_tick_def status_due_def is_running_def run_defs
        format_elapsed_time_def fmt_02d_def str_int_def digits.simps digit_char_def)
  have lines: "log_calls (trace_of (status_reporter sim_os (\<lambda>r w. r) (Suc (Suc (Suc 0))) started0
       (scripted [R_clock 129, R_clock 130, R_reaped 2 0]))) = [status_line 30]"
    unfolding run
    by (simp add: sel_defs log_calls_def status_line_def format_elapsed_time_def fmt_02d_def
        str_int_def digits.simps digit_char_def)
  have c0: "loop_condition sim_os
        (started0, \<lparr>codes = [], script = [R_clock 129, R_clock 130, R_reaped 2 0]\<rparr>)"
    by (simp add: loop_condition_def is_running_def run_defs)
  have p1: "after_pass sim_os (\<lambda>r w. r)
          (started0, \<lparr>codes = [], script = [R_clock 129, R_clock 130, R_reaped 2 0]\<rparr>) =
        (started0, \<lparr>codes = [], script = [R_clock 130, R_reaped 2 0]\<rparr>)"
    by (simp add: after_pass_def run_defs Let_def)
  have c1: "loop_condition sim_os
        (after_pass sim_os (\<lambda>r w. r)
          (started0, \<lparr>codes = [], script = [R_clock 129, R_clock 130, R_reaped 2 0]\<rparr>))"
    unfolding p1 by (simp add: loop_condition_def is_running_def run_defs)
  have p2: "after_pass sim_os (\<lambda>r w. r) (after_pass sim_os (\<lambda>r w. r)
        (started0, \<lparr>codes = [], script = [R_clock 129, R_clock 130, R_reaped 2 0]\<rparr>)) =
       (started0, \<lparr>codes = [(2, 0)], script = []\<rparr>)"
    unfolding p1 by (simp add: after_pass_def run_defs Let_def)
  have stop': "status_reporter sim_os (\<lambda>r w. r) (Suc 0) (started0\<lparr>stop_requested := True\<rparr>)
      (scripted []) = (Some (Inr ()), started0\<lparr>stop_requested := True\<rparr>, scripted [])"
    using stop by (simp add: scripted_def)
  have fmt': "format_elapsed_time 3725 = ''01:02:05''"
    using fmt by (simp add: zero_padded2_def digits.simps digit_char_def)
  show ?thesis
    by (intro conjI) (rule run lines c0 c1 p2 stop' fmt')+
qed

section \<open>\<open>wait\<close> without a successful \<open>start\<close>\<close>














end
